theory Spec2Isabelle
  imports Main
begin

section \<open>Operation nodes\<close>

text \<open>
  The builder of \<^verbatim>\<open>src/schema/column-definition-builder.ts\<close> wraps one
  \<^verbatim>\<open>ColumnDefinitionNode\<close>. The node modules themselves
  (\<^verbatim>\<open>operation-node/*.ts\<close>) and the parsers are not among the source files; their
  records and constructors are modelled from the specification's data model, and the
  type \<open>'e\<close> stands for the opaque operation node a raw expression converts itself to.
\<close>

text \<open>A JavaScript exception. \<open>Error msg\<close> is \<^verbatim>\<open>new Error(msg)\<close> thrown by the
  builder itself; \<open>ParseError ref\<close> is the error of the reference parser, of which the
  specification only says that it identifies the offending input; \<open>TypeError\<close> is what
  reading the private field \<^verbatim>\<open>#node\<close> of something that is not a builder raises.\<close>

datatype error = Error string | ParseError string | TypeError

text \<open>Modelled from the spec: \<^verbatim>\<open>OnModifyForeignAction\<close> of
  \<^verbatim>\<open>operation-node/references-node.ts\<close>, the enumerated foreign key actions.\<close>

datatype OnModifyForeignAction = Cascade | SetNull | SetDefault | Restrict | NoAction

text \<open>Modelled from the spec: the table part of a reference, an optional schema and a
  table identifier, both opaque strings.\<close>

record TableNode =
  tn_schema :: "string option"
  tn_table :: string

text \<open>Modelled from the spec: the column part of a reference, a column identifier or
  the "all columns" marker.\<close>

datatype column_part = ColumnNode string | SelectAllNode

text \<open>Modelled from the spec: what \<^verbatim>\<open>parseStringReference\<close> may return, a
  \<^verbatim>\<open>ReferenceNode\<close> (table and column) or some node that is not one.\<close>

datatype parsed_reference = ReferenceNode TableNode column_part | OtherNode

text \<open>Modelled from the spec: \<^verbatim>\<open>ReferencesNode\<close>, the target table, the target
  columns and the optional actions.\<close>

record ReferencesNode =
  rn_table :: TableNode
  rn_columns :: "column_part list"
  rn_onDelete :: "OnModifyForeignAction option"
  rn_onUpdate :: "OnModifyForeignAction option"

text \<open>Modelled from the spec: \<^verbatim>\<open>GeneratedNode\<close>, whose optional fields are the
  ones the builder passes (\<^verbatim>\<open>identity\<close>, \<^verbatim>\<open>always\<close>,
  \<^verbatim>\<open>byDefault\<close>, \<^verbatim>\<open>stored\<close>) and the expression.\<close>

record 'e GeneratedNode =
  gn_identity :: "bool option"
  gn_always :: "bool option"
  gn_byDefault :: "bool option"
  gn_stored :: "bool option"
  gn_expression :: "'e option"

text \<open>Modelled from the spec: the two wrapper nodes.\<close>

datatype 'e CheckConstraintNode = CheckConstraintNode 'e

datatype 'e DefaultValueNode = DefaultValueNode 'e

text \<open>Modelled from the spec: \<^verbatim>\<open>ColumnDefinitionNode\<close>: name, base type and
  the optional flags and sub-nodes.\<close>

record 'e ColumnDefinitionNode =
  cd_column :: string
  cd_dataType :: string
  cd_autoIncrement :: "bool option"
  cd_primaryKey :: "bool option"
  cd_unique :: "bool option"
  cd_notNull :: "bool option"
  cd_unsigned :: "bool option"
  cd_references :: "ReferencesNode option"
  cd_defaultTo :: "'e DefaultValueNode option"
  cd_check :: "'e CheckConstraintNode option"
  cd_generated :: "'e GeneratedNode option"

subsection \<open>Constructors and the clone-with protocol\<close>

text \<open>An object literal of overrides is a list of field assignments, applied from
  left to right as the spread \<^verbatim>\<open>{ ...node, ...props }\<close> does.\<close>

datatype 'e ColumnDefinitionProps =
    Set_autoIncrement bool
  | Set_primaryKey bool
  | Set_unique bool
  | Set_notNull bool
  | Set_unsigned bool
  | Set_references ReferencesNode
  | Set_defaultTo "'e DefaultValueNode"
  | Set_check "'e CheckConstraintNode"
  | Set_generated "'e GeneratedNode"

fun set_column_prop ::
  "'e ColumnDefinitionProps \<Rightarrow> 'e ColumnDefinitionNode \<Rightarrow> 'e ColumnDefinitionNode" where
  "set_column_prop (Set_autoIncrement v) n = n\<lparr>cd_autoIncrement := Some v\<rparr>"
| "set_column_prop (Set_primaryKey v) n = n\<lparr>cd_primaryKey := Some v\<rparr>"
| "set_column_prop (Set_unique v) n = n\<lparr>cd_unique := Some v\<rparr>"
| "set_column_prop (Set_notNull v) n = n\<lparr>cd_notNull := Some v\<rparr>"
| "set_column_prop (Set_unsigned v) n = n\<lparr>cd_unsigned := Some v\<rparr>"
| "set_column_prop (Set_references v) n = n\<lparr>cd_references := Some v\<rparr>"
| "set_column_prop (Set_defaultTo v) n = n\<lparr>cd_defaultTo := Some v\<rparr>"
| "set_column_prop (Set_check v) n = n\<lparr>cd_check := Some v\<rparr>"
| "set_column_prop (Set_generated v) n = n\<lparr>cd_generated := Some v\<rparr>"

text \<open>Modelled from the spec: \<^verbatim>\<open>ColumnDefinitionNode.cloneWith\<close>, a new node
  with the given fields replaced and all others preserved.\<close>

definition cloneWith ::
  "'e ColumnDefinitionNode \<Rightarrow> 'e ColumnDefinitionProps list \<Rightarrow> 'e ColumnDefinitionNode" where
  "cloneWith node props = fold set_column_prop props node"

datatype GeneratedProps =
    Set_identity bool
  | Set_always bool
  | Set_byDefault bool
  | Set_stored bool

fun set_generated_prop :: "GeneratedProps \<Rightarrow> 'e GeneratedNode \<Rightarrow> 'e GeneratedNode" where
  "set_generated_prop (Set_identity v) g = g\<lparr>gn_identity := Some v\<rparr>"
| "set_generated_prop (Set_always v) g = g\<lparr>gn_always := Some v\<rparr>"
| "set_generated_prop (Set_byDefault v) g = g\<lparr>gn_byDefault := Some v\<rparr>"
| "set_generated_prop (Set_stored v) g = g\<lparr>gn_stored := Some v\<rparr>"

text \<open>Modelled from the spec: \<^verbatim>\<open>GeneratedNode.create\<close>, a node with the given
  fields and nothing else.\<close>

definition GeneratedNode_create :: "GeneratedProps list \<Rightarrow> 'e GeneratedNode" where
  "GeneratedNode_create params =
     fold set_generated_prop params
       \<lparr>gn_identity = None, gn_always = None, gn_byDefault = None, gn_stored = None,
        gn_expression = None\<rparr>"

text \<open>Modelled from the spec: \<^verbatim>\<open>GeneratedNode.createWithExpression\<close>, the
  expression form of a generated node: it carries the expression and is not an identity
  specifier.\<close>

definition GeneratedNode_createWithExpression :: "'e \<Rightarrow> 'e GeneratedNode" where
  "GeneratedNode_createWithExpression expression =
     \<lparr>gn_identity = None, gn_always = None, gn_byDefault = None, gn_stored = None,
      gn_expression = Some expression\<rparr>"

text \<open>Modelled from the spec: \<^verbatim>\<open>GeneratedNode.cloneWith\<close>.\<close>

definition GeneratedNode_cloneWith ::
  "'e GeneratedNode \<Rightarrow> GeneratedProps list \<Rightarrow> 'e GeneratedNode" where
  "GeneratedNode_cloneWith node params = fold set_generated_prop params node"

text \<open>Modelled from the spec: \<^verbatim>\<open>ReferencesNode.create\<close>, a fresh node with the
  table and the columns and no action.\<close>

definition ReferencesNode_create :: "TableNode \<Rightarrow> column_part list \<Rightarrow> ReferencesNode" where
  "ReferencesNode_create table columns =
     \<lparr>rn_table = table, rn_columns = columns, rn_onDelete = None, rn_onUpdate = None\<rparr>"

text \<open>Modelled from the spec: \<^verbatim>\<open>ReferencesNode.cloneWithOnDelete\<close> and
  \<^verbatim>\<open>ReferencesNode.cloneWithOnUpdate\<close>, clones with the one action set and
  everything else preserved.\<close>

definition cloneWithOnDelete :: "ReferencesNode \<Rightarrow> OnModifyForeignAction \<Rightarrow> ReferencesNode" where
  "cloneWithOnDelete references onDelete = references\<lparr>rn_onDelete := Some onDelete\<rparr>"

definition cloneWithOnUpdate :: "ReferencesNode \<Rightarrow> OnModifyForeignAction \<Rightarrow> ReferencesNode" where
  "cloneWithOnUpdate references onUpdate = references\<lparr>rn_onUpdate := Some onUpdate\<rparr>"

text \<open>A raw expression builder is anything that converts itself into a node.\<close>

datatype 'e AnyRawBuilder = RawBuilder (raw_toOperationNode: 'e)

section \<open>Objects\<close>

text \<open>
  Builders are objects with identity. The store lists the builder objects allocated so
  far, each by the value of its private field \<^verbatim>\<open>#node\<close>; a reference is an index
  into the store. A computation takes the store and returns either the exception it
  threw or its result, together with the store it leaves.
\<close>

type_synonym ref = nat

type_synonym 'e store = "'e ColumnDefinitionNode list"

type_synonym ('e, 'a) js = "'e store \<Rightarrow> (error + 'a) \<times> 'e store"

definition return :: "'a \<Rightarrow> ('e, 'a) js" where
  "return x = (\<lambda>s. (Inr x, s))"

definition throw :: "error \<Rightarrow> ('e, 'a) js" where
  "throw e = (\<lambda>s. (Inl e, s))"

definition bind :: "('e, 'a) js \<Rightarrow> ('a \<Rightarrow> ('e, 'b) js) \<Rightarrow> ('e, 'b) js" where
  "bind m f = (\<lambda>s. case m s of (Inl e, s') \<Rightarrow> (Inl e, s') | (Inr x, s') \<Rightarrow> f x s')"

text \<open>\<^verbatim>\<open>new ColumnDefinitionBuilder(node)\<close>: the constructor stores the node in a
  new object.\<close>

definition new_ColumnDefinitionBuilder :: "'e ColumnDefinitionNode \<Rightarrow> ('e, ref) js" where
  "new_ColumnDefinitionBuilder node = (\<lambda>s. (Inr (length s), s @ [node]))"

text \<open>\<^verbatim>\<open>this.#node\<close>.\<close>

definition this_node :: "ref \<Rightarrow> ('e, 'e ColumnDefinitionNode) js" where
  "this_node this = (\<lambda>s. if this < length s then (Inr (s ! this), s) else (Inl TypeError, s))"

section \<open>ColumnDefinitionBuilder\<close>

definition autoIncrement :: "ref \<Rightarrow> ('e, ref) js" where
  "autoIncrement this =
     bind (this_node this) (\<lambda>node.
       new_ColumnDefinitionBuilder (cloneWith node [Set_autoIncrement True]))"

definition primaryKey :: "ref \<Rightarrow> ('e, ref) js" where
  "primaryKey this =
     bind (this_node this) (\<lambda>node.
       new_ColumnDefinitionBuilder (cloneWith node [Set_primaryKey True]))"

text \<open>The parser is a parameter of \<open>references\<close>: \<^verbatim>\<open>parseStringReference\<close> is
  imported from \<^verbatim>\<open>parser/reference-parser.ts\<close>.\<close>

definition invalid_call_references :: "string \<Rightarrow> string" where
  "invalid_call_references ref =
     ''invalid call references('' @ [CHR 0x27] @ ref @ [CHR 0x27] @
     ''). The reference must have format table.column or schema.table.column''"

definition references ::
  "(string \<Rightarrow> error + parsed_reference) \<Rightarrow> string \<Rightarrow> ref \<Rightarrow> ('e, ref) js" where
  "references parse ref this =
     (case parse ref of
        Inl e \<Rightarrow> throw e
      | Inr OtherNode \<Rightarrow> throw (Error (invalid_call_references ref))
      | Inr (ReferenceNode table SelectAllNode) \<Rightarrow> throw (Error (invalid_call_references ref))
      | Inr (ReferenceNode table column) \<Rightarrow>
          bind (this_node this) (\<lambda>node.
            new_ColumnDefinitionBuilder
              (cloneWith node [Set_references (ReferencesNode_create table [column])])))"

definition onDelete :: "OnModifyForeignAction \<Rightarrow> ref \<Rightarrow> ('e, ref) js" where
  "onDelete action this =
     bind (this_node this) (\<lambda>node.
       case cd_references node of
         None \<Rightarrow> throw (Error ''on delete constraint can only be added for foreign keys'')
       | Some refs \<Rightarrow>
           new_ColumnDefinitionBuilder
             (cloneWith node [Set_references (cloneWithOnDelete refs action)]))"

definition onUpdate :: "OnModifyForeignAction \<Rightarrow> ref \<Rightarrow> ('e, ref) js" where
  "onUpdate action this =
     bind (this_node this) (\<lambda>node.
       case cd_references node of
         None \<Rightarrow> throw (Error ''on update constraint can only be added for foreign keys'')
       | Some refs \<Rightarrow>
           new_ColumnDefinitionBuilder
             (cloneWith node [Set_references (cloneWithOnUpdate refs action)]))"

definition unique :: "ref \<Rightarrow> ('e, ref) js" where
  "unique this =
     bind (this_node this) (\<lambda>node.
       new_ColumnDefinitionBuilder (cloneWith node [Set_unique True]))"

definition notNull :: "ref \<Rightarrow> ('e, ref) js" where
  "notNull this =
     bind (this_node this) (\<lambda>node.
       new_ColumnDefinitionBuilder (cloneWith node [Set_notNull True]))"

definition unsigned :: "ref \<Rightarrow> ('e, ref) js" where
  "unsigned this =
     bind (this_node this) (\<lambda>node.
       new_ColumnDefinitionBuilder (cloneWith node [Set_unsigned True]))"

text \<open>\<^verbatim>\<open>parseDefaultValueExpression\<close> is imported from
  \<^verbatim>\<open>parser/default-value-parser.ts\<close> and is a parameter here.\<close>

definition defaultTo :: "('d \<Rightarrow> 'e) \<Rightarrow> 'd \<Rightarrow> ref \<Rightarrow> ('e, ref) js" where
  "defaultTo parseDefaultValueExpression v this =
     bind (this_node this) (\<lambda>node.
       new_ColumnDefinitionBuilder
         (cloneWith node [Set_defaultTo (DefaultValueNode (parseDefaultValueExpression v))]))"

definition check :: "'e AnyRawBuilder \<Rightarrow> ref \<Rightarrow> ('e, ref) js" where
  "check expression this =
     bind (this_node this) (\<lambda>node.
       new_ColumnDefinitionBuilder
         (cloneWith node [Set_check (CheckConstraintNode (raw_toOperationNode expression))]))"

definition generatedAlwaysAs :: "'e AnyRawBuilder \<Rightarrow> ref \<Rightarrow> ('e, ref) js" where
  "generatedAlwaysAs expression this =
     bind (this_node this) (\<lambda>node.
       new_ColumnDefinitionBuilder
         (cloneWith node
            [Set_generated (GeneratedNode_createWithExpression (raw_toOperationNode expression))]))"

definition generatedAlwaysAsIdentity :: "ref \<Rightarrow> ('e, ref) js" where
  "generatedAlwaysAsIdentity this =
     bind (this_node this) (\<lambda>node.
       new_ColumnDefinitionBuilder
         (cloneWith node
            [Set_generated (GeneratedNode_create [Set_identity True, Set_always True])]))"

definition generatedByDefaultAsIdentity :: "ref \<Rightarrow> ('e, ref) js" where
  "generatedByDefaultAsIdentity this =
     bind (this_node this) (\<lambda>node.
       new_ColumnDefinitionBuilder
         (cloneWith node
            [Set_generated (GeneratedNode_create [Set_identity True, Set_byDefault True])]))"

definition stored :: "ref \<Rightarrow> ('e, ref) js" where
  "stored this =
     bind (this_node this) (\<lambda>node.
       case cd_generated node of
         None \<Rightarrow> throw (Error ''stored() can only be called after generatedAlwaysAs'')
       | Some generated \<Rightarrow>
           new_ColumnDefinitionBuilder
             (cloneWith node
                [Set_generated (GeneratedNode_cloneWith generated [Set_stored True])]))"

definition toOperationNode :: "ref \<Rightarrow> ('e, 'e ColumnDefinitionNode) js" where
  "toOperationNode this = this_node this"

text \<open>The node wrapped by the builder a call chain returns: the chain followed by
  \<^verbatim>\<open>toOperationNode()\<close>.\<close>

definition wrapped :: "('e, ref) js \<Rightarrow> 'e store \<Rightarrow> error + 'e ColumnDefinitionNode" where
  "wrapped m s = fst (bind m toOperationNode s)"

subsection \<open>Calls as data\<close>

text \<open>One constructor for each method of \<^verbatim>\<open>ColumnDefinitionBuilderInterface\<close>,
  with its arguments, so that a statement can range over all of them.\<close>

datatype ('d, 'e) call =
    Call_autoIncrement
  | Call_primaryKey
  | Call_references string
  | Call_onDelete OnModifyForeignAction
  | Call_onUpdate OnModifyForeignAction
  | Call_unique
  | Call_notNull
  | Call_unsigned
  | Call_defaultTo 'd
  | Call_check "'e AnyRawBuilder"
  | Call_generatedAlwaysAs "'e AnyRawBuilder"
  | Call_generatedAlwaysAsIdentity
  | Call_generatedByDefaultAsIdentity
  | Call_stored

fun invoke ::
  "(string \<Rightarrow> error + parsed_reference) \<Rightarrow> ('d \<Rightarrow> 'e) \<Rightarrow> ('d, 'e) call \<Rightarrow> ref \<Rightarrow> ('e, ref) js" where
  "invoke P D Call_autoIncrement this = autoIncrement this"
| "invoke P D Call_primaryKey this = primaryKey this"
| "invoke P D (Call_references ref) this = references P ref this"
| "invoke P D (Call_onDelete a) this = onDelete a this"
| "invoke P D (Call_onUpdate a) this = onUpdate a this"
| "invoke P D Call_unique this = unique this"
| "invoke P D Call_notNull this = notNull this"
| "invoke P D Call_unsigned this = unsigned this"
| "invoke P D (Call_defaultTo v) this = defaultTo D v this"
| "invoke P D (Call_check x) this = check x this"
| "invoke P D (Call_generatedAlwaysAs x) this = generatedAlwaysAs x this"
| "invoke P D Call_generatedAlwaysAsIdentity this = generatedAlwaysAsIdentity this"
| "invoke P D Call_generatedByDefaultAsIdentity this = generatedByDefaultAsIdentity this"
| "invoke P D Call_stored this = stored this"

text \<open>A fluent chain \<^verbatim>\<open>b.m1(..).m2(..)...\<close>: each call is made on the builder the
  previous one returned, and the first exception ends the chain.\<close>

fun chain ::
  "(string \<Rightarrow> error + parsed_reference) \<Rightarrow> ('d \<Rightarrow> 'e) \<Rightarrow> ('d, 'e) call list \<Rightarrow> ref \<Rightarrow> ('e, ref) js" where
  "chain P D [] this = return this"
| "chain P D (c # cs) this = bind (invoke P D c this) (chain P D cs)"

text \<open>A column definition targets one column when its \<^verbatim>\<open>references\<close> sub-node, if
  present, lists exactly one column.\<close>

definition one_column :: "'e ColumnDefinitionNode \<Rightarrow> bool" where
  "one_column node =
     (case cd_references node of None \<Rightarrow> True | Some refs \<Rightarrow> length (rn_columns refs) = 1)"

section \<open>Reference parsing\<close>

text \<open>\<^verbatim>\<open>String.prototype.split\<close> with a one-character separator.\<close>

fun split :: "char \<Rightarrow> string \<Rightarrow> string list" where
  "split sep [] = [[]]"
| "split sep (c # cs) =
     (if c = sep then [] # split sep cs
      else (case split sep cs of [] \<Rightarrow> [[c]] | part # parts \<Rightarrow> (c # part) # parts))"

definition parse_column :: "string \<Rightarrow> column_part" where
  "parse_column column = (if column = ''*'' then SelectAllNode else ColumnNode column)"

text \<open>Modelled from the spec: \<^verbatim>\<open>parseStringReference\<close> of
  \<^verbatim>\<open>parser/reference-parser.ts\<close>. The string is split on the dot; exactly two
  segments are table and column, exactly three are schema, table and column, any other
  count fails with an error that identifies the input. The identifiers are kept as they
  are; a column segment that is the wildcard becomes the "all columns" marker, which
  \<open>references\<close> rejects.\<close>

definition parseStringReference :: "string \<Rightarrow> error + parsed_reference" where
  "parseStringReference ref =
     (case split (CHR ''.'') ref of
        [table, column] \<Rightarrow>
          Inr (ReferenceNode \<lparr>tn_schema = None, tn_table = table\<rparr> (parse_column column))
      | [schema, table, column] \<Rightarrow>
          Inr (ReferenceNode \<lparr>tn_schema = Some schema, tn_table = table\<rparr> (parse_column column))
      | _ \<Rightarrow> Inl (ParseError ref))"

section \<open>Having clauses\<close>

text \<open>
  \<^verbatim>\<open>src/query-builder/having-interface.ts\<close> declares the methods of a
  having-capable builder; their implementations are not among the source files.
\<close>

text \<open>Modelled from the spec: the predicate tree, with comparisons (left operand,
  operator, right operand) and existence checks as leaves under the boolean
  combinators. \<open>'a\<close> is the type of operands and sub-selects.\<close>

datatype 'a Predicate =
    Comparison 'a string 'a
  | ExistsNode 'a
  | NotExistsNode 'a
  | AndNode "'a Predicate" "'a Predicate"
  | OrNode "'a Predicate" "'a Predicate"

text \<open>The truth value of a tree under a valuation of its leaves.\<close>

fun holds :: "('a Predicate \<Rightarrow> bool) \<Rightarrow> 'a Predicate \<Rightarrow> bool" where
  "holds v (AndNode p q) = (holds v p \<and> holds v q)"
| "holds v (OrNode p q) = (holds v p \<or> holds v q)"
| "holds v leaf = v leaf"

text \<open>The three overloads of \<^verbatim>\<open>orHaving\<close>: a comparison, a factory that receives
  the expression builder (of type \<open>'b\<close>), or an expression built already.\<close>

datatype ('a, 'b) HavingArgs =
    Binary 'a string 'a
  | ByFactory "'b \<Rightarrow> 'a Predicate"
  | ByExpression "'a Predicate"

fun parseHaving :: "'b \<Rightarrow> ('a, 'b) HavingArgs \<Rightarrow> 'a Predicate" where
  "parseHaving eb (Binary lhs op rhs) = Comparison lhs op rhs"
| "parseHaving eb (ByFactory factory) = factory eb"
| "parseHaving eb (ByExpression expression) = expression"

text \<open>Modelled from the spec: the statement a having-capable builder accumulates, its
  having clause and, in \<open>qn_clauses\<close>, all the clauses of other types.\<close>

record ('a, 'c) QueryNode =
  qn_having :: "'a Predicate option"
  qn_clauses :: 'c

text \<open>Modelled from the spec: \<^verbatim>\<open>orHaving\<close>, which combines the new condition with
  the conditions accumulated so far by OR at the top level.\<close>

definition orHaving :: "'b \<Rightarrow> ('a, 'b) HavingArgs \<Rightarrow> ('a, 'c) QueryNode \<Rightarrow> ('a, 'c) QueryNode" where
  "orHaving eb args q =
     q\<lparr>qn_having :=
         (case qn_having q of
            None \<Rightarrow> Some (parseHaving eb args)
          | Some having \<Rightarrow> Some (OrNode having (parseHaving eb args)))\<rparr>"

text \<open>Modelled from the spec: a call that adds a clause of another type.\<close>

definition otherClause :: "('c \<Rightarrow> 'c) \<Rightarrow> ('a, 'c) QueryNode \<Rightarrow> ('a, 'c) QueryNode" where
  "otherClause f q = q\<lparr>qn_clauses := f (qn_clauses q)\<rparr>"

section \<open>Example nodes\<close>

text \<open>A plain column, a foreign key column whose reference already carries an
  \<^verbatim>\<open>on update\<close> action, and a column generated from an expression.\<close>

definition example_column :: "string ColumnDefinitionNode" where
  "example_column =
     \<lparr>cd_column = ''owner_id'', cd_dataType = ''integer'', cd_autoIncrement = None,
      cd_primaryKey = None, cd_unique = None, cd_notNull = None, cd_unsigned = None,
      cd_references = None, cd_defaultTo = None, cd_check = None, cd_generated = None\<rparr>"

definition example_references :: ReferencesNode where
  "example_references =
     \<lparr>rn_table = \<lparr>tn_schema = None, tn_table = ''person''\<rparr>,
      rn_columns = [ColumnNode ''id''], rn_onDelete = None, rn_onUpdate = Some Restrict\<rparr>"

definition example_foreign_key :: "string ColumnDefinitionNode" where
  "example_foreign_key = example_column\<lparr>cd_references := Some example_references\<rparr>"

definition example_generated :: "string ColumnDefinitionNode" where
  "example_generated =
     example_column\<lparr>cd_generated := Some (GeneratedNode_createWithExpression ''a + b'')\<rparr>"

text \<open>A parser that answers \<^verbatim>\<open>person.id\<close> whatever it is given, and one that
  always fails.\<close>

definition person_id :: "string \<Rightarrow> error + parsed_reference" where
  "person_id ref = Inr (ReferenceNode \<lparr>tn_schema = None, tn_table = ''person''\<rparr> (ColumnNode ''id''))"

definition no_parse :: "string \<Rightarrow> error + parsed_reference" where
  "no_parse ref = Inl (ParseError ref)"

section \<open>Running the builder\<close>

lemma bind_this_node:
  "bind (this_node this) f s = (if this < length s then f (s ! this) s else (Inl TypeError, s))"
  by (simp add: bind_def this_node_def)

lemma bind_new:
  "bind (new_ColumnDefinitionBuilder n) f s = f (length s) (s @ [n])"
  by (simp add: bind_def new_ColumnDefinitionBuilder_def)

lemma bind_throw: "bind (throw e) f s = (Inl e, s)"
  by (simp add: bind_def throw_def)

lemma bind_return: "bind (return x) f s = f x s"
  by (simp add: bind_def return_def)

lemma bind_assoc: "bind (bind m f) g = bind m (\<lambda>x. bind (f x) g)"
  by (auto simp: bind_def fun_eq_iff split: prod.splits sum.splits)

lemma toOperationNode_last: "toOperationNode (length s) (s @ [n]) = (Inr n, s @ [n])"
  by (simp add: toOperationNode_def this_node_def)

lemma wrapped_bind_this_node:
  "wrapped (bind (this_node this) f) s =
     (if this < length s then wrapped (f (s ! this)) s else Inl TypeError)"
  by (simp add: wrapped_def bind_assoc bind_this_node)

lemma wrapped_new: "wrapped (new_ColumnDefinitionBuilder n) s = Inr n"
  by (simp add: wrapped_def bind_new toOperationNode_last)

lemma wrapped_throw: "wrapped (throw e) s = Inl e"
  by (simp add: wrapped_def bind_throw)

text \<open>What each method does to the store.\<close>

lemma autoIncrement_run:
  "autoIncrement this s =
     (if this < length s
      then (Inr (length s), s @ [(s ! this)\<lparr>cd_autoIncrement := Some True\<rparr>])
      else (Inl TypeError, s))"
  by (simp add: autoIncrement_def bind_this_node new_ColumnDefinitionBuilder_def cloneWith_def)

lemma primaryKey_run:
  "primaryKey this s =
     (if this < length s
      then (Inr (length s), s @ [(s ! this)\<lparr>cd_primaryKey := Some True\<rparr>])
      else (Inl TypeError, s))"
  by (simp add: primaryKey_def bind_this_node new_ColumnDefinitionBuilder_def cloneWith_def)

lemma unique_run:
  "unique this s =
     (if this < length s
      then (Inr (length s), s @ [(s ! this)\<lparr>cd_unique := Some True\<rparr>])
      else (Inl TypeError, s))"
  by (simp add: unique_def bind_this_node new_ColumnDefinitionBuilder_def cloneWith_def)

lemma notNull_run:
  "notNull this s =
     (if this < length s
      then (Inr (length s), s @ [(s ! this)\<lparr>cd_notNull := Some True\<rparr>])
      else (Inl TypeError, s))"
  by (simp add: notNull_def bind_this_node new_ColumnDefinitionBuilder_def cloneWith_def)

lemma unsigned_run:
  "unsigned this s =
     (if this < length s
      then (Inr (length s), s @ [(s ! this)\<lparr>cd_unsigned := Some True\<rparr>])
      else (Inl TypeError, s))"
  by (simp add: unsigned_def bind_this_node new_ColumnDefinitionBuilder_def cloneWith_def)

lemma defaultTo_run:
  "defaultTo D v this s =
     (if this < length s
      then (Inr (length s), s @ [(s ! this)\<lparr>cd_defaultTo := Some (DefaultValueNode (D v))\<rparr>])
      else (Inl TypeError, s))"
  by (simp add: defaultTo_def bind_this_node new_ColumnDefinitionBuilder_def cloneWith_def)

lemma check_run:
  "check x this s =
     (if this < length s
      then (Inr (length s),
            s @ [(s ! this)\<lparr>cd_check := Some (CheckConstraintNode (raw_toOperationNode x))\<rparr>])
      else (Inl TypeError, s))"
  by (simp add: check_def bind_this_node new_ColumnDefinitionBuilder_def cloneWith_def)

lemma generatedAlwaysAs_run:
  "generatedAlwaysAs x this s =
     (if this < length s
      then (Inr (length s),
            s @ [(s ! this)\<lparr>cd_generated :=
                   Some (GeneratedNode_createWithExpression (raw_toOperationNode x))\<rparr>])
      else (Inl TypeError, s))"
  by (simp add: generatedAlwaysAs_def bind_this_node new_ColumnDefinitionBuilder_def
      cloneWith_def)

lemma generatedAlwaysAsIdentity_run:
  "generatedAlwaysAsIdentity this s =
     (if this < length s
      then (Inr (length s),
            s @ [(s ! this)\<lparr>cd_generated :=
                   Some (GeneratedNode_create [Set_identity True, Set_always True])\<rparr>])
      else (Inl TypeError, s))"
  by (simp add: generatedAlwaysAsIdentity_def bind_this_node new_ColumnDefinitionBuilder_def
      cloneWith_def)

lemma generatedByDefaultAsIdentity_run:
  "generatedByDefaultAsIdentity this s =
     (if this < length s
      then (Inr (length s),
            s @ [(s ! this)\<lparr>cd_generated :=
                   Some (GeneratedNode_create [Set_identity True, Set_byDefault True])\<rparr>])
      else (Inl TypeError, s))"
  by (simp add: generatedByDefaultAsIdentity_def bind_this_node new_ColumnDefinitionBuilder_def
      cloneWith_def)

lemma onDelete_run:
  "onDelete a this s =
     (if this < length s
      then (case cd_references (s ! this) of
              None \<Rightarrow> (Inl (Error ''on delete constraint can only be added for foreign keys''), s)
            | Some refs \<Rightarrow>
                (Inr (length s),
                 s @ [(s ! this)\<lparr>cd_references := Some (refs\<lparr>rn_onDelete := Some a\<rparr>)\<rparr>]))
      else (Inl TypeError, s))"
  by (simp add: onDelete_def bind_this_node new_ColumnDefinitionBuilder_def cloneWith_def
      cloneWithOnDelete_def throw_def split: option.splits)

lemma onUpdate_run:
  "onUpdate a this s =
     (if this < length s
      then (case cd_references (s ! this) of
              None \<Rightarrow> (Inl (Error ''on update constraint can only be added for foreign keys''), s)
            | Some refs \<Rightarrow>
                (Inr (length s),
                 s @ [(s ! this)\<lparr>cd_references := Some (refs\<lparr>rn_onUpdate := Some a\<rparr>)\<rparr>]))
      else (Inl TypeError, s))"
  by (simp add: onUpdate_def bind_this_node new_ColumnDefinitionBuilder_def cloneWith_def
      cloneWithOnUpdate_def throw_def split: option.splits)

lemma stored_run:
  "stored this s =
     (if this < length s
      then (case cd_generated (s ! this) of
              None \<Rightarrow> (Inl (Error ''stored() can only be called after generatedAlwaysAs''), s)
            | Some g \<Rightarrow>
                (Inr (length s),
                 s @ [(s ! this)\<lparr>cd_generated := Some (g\<lparr>gn_stored := Some True\<rparr>)\<rparr>]))
      else (Inl TypeError, s))"
  by (simp add: stored_def bind_this_node new_ColumnDefinitionBuilder_def cloneWith_def
      GeneratedNode_cloneWith_def throw_def split: option.splits)

lemma references_run:
  "references P ref this s =
     (case P ref of
        Inl e \<Rightarrow> (Inl e, s)
      | Inr OtherNode \<Rightarrow> (Inl (Error (invalid_call_references ref)), s)
      | Inr (ReferenceNode table SelectAllNode) \<Rightarrow> (Inl (Error (invalid_call_references ref)), s)
      | Inr (ReferenceNode table (ColumnNode c)) \<Rightarrow>
          (if this < length s
           then (Inr (length s),
                 s @ [(s ! this)\<lparr>cd_references :=
                        Some (ReferencesNode_create table [ColumnNode c])\<rparr>])
           else (Inl TypeError, s)))"
  by (simp add: references_def bind_this_node new_ColumnDefinitionBuilder_def cloneWith_def
      throw_def split: sum.splits parsed_reference.splits column_part.splits)

lemma wrapped_run:
  "wrapped m s = (case m s of (Inl e, s') \<Rightarrow> Inl e | (Inr b, s') \<Rightarrow> fst (toOperationNode b s'))"
  by (simp add: wrapped_def bind_def split: prod.splits sum.splits)

lemmas flag_runs = autoIncrement_run primaryKey_run unique_run notNull_run unsigned_run

lemmas generated_runs =
  generatedAlwaysAs_run generatedAlwaysAsIdentity_run generatedByDefaultAsIdentity_run

lemmas example_defs =
  example_column_def example_references_def example_foreign_key_def example_generated_def
  person_id_def no_parse_def

section \<open>Immutability\<close>

text \<open>
  Claim C1. Let \<open>this\<close> be a builder of the store and \<open>c\<close> any call of a method of
  \<^verbatim>\<open>ColumnDefinitionBuilderInterface\<close>, with any arguments and whatever the two
  parsers do. After the call, \<^verbatim>\<open>this.toOperationNode()\<close> returns the node it
  returned before, and every builder that existed before is as it was. If the call
  returns, it returns a builder that did not exist before; if it throws, the store is
  exactly the one before the call.
\<close>

theorem builder_immutable:
  fixes s :: "'e store"
  assumes "this < length s" and "invoke P D c this s = (r, s')"
  shows "toOperationNode this s' = (Inr (s ! this), s')
    \<and> toOperationNode this s = (Inr (s ! this), s)
    \<and> take (length s) s' = s
    \<and> (case r of Inl e \<Rightarrow> s' = s | Inr b \<Rightarrow> \<not> b < length s \<and> b < length s' \<and> b \<noteq> this)"
  using assms
  by (cases c; auto simp: flag_runs defaultTo_run check_run generated_runs onDelete_run
      onUpdate_run stored_run references_run toOperationNode_def this_node_def nth_append
      split: option.splits sum.splits parsed_reference.splits column_part.splits)+

theorem builder_immutable_witness:
  "toOperationNode 0 [example_column, example_column\<lparr>cd_unique := Some True\<rparr>] =
     (Inr example_column, [example_column, example_column\<lparr>cd_unique := Some True\<rparr>])
   \<and> invoke no_parse (\<lambda>v. v) Call_unique 0 [example_column] =
       (Inr 1, [example_column, example_column\<lparr>cd_unique := Some True\<rparr>])
   \<and> invoke no_parse (\<lambda>v. v) (Call_onDelete Cascade) 0 [example_column] =
       (Inl (Error ''on delete constraint can only be added for foreign keys''), [example_column])
   \<and> toOperationNode 0 [example_column] = (Inr example_column, [example_column])"
proof -
  have valid: "0 < length [example_column]"
    by simp
  have ok: "invoke no_parse (\<lambda>v. v) Call_unique 0 [example_column] =
      (Inr 1, [example_column, example_column\<lparr>cd_unique := Some True\<rparr>])"
    by (simp add: unique_run)
  have thrown: "invoke no_parse (\<lambda>v. v) (Call_onDelete Cascade) 0 [example_column] =
      (Inl (Error ''on delete constraint can only be added for foreign keys''), [example_column])"
    by (simp add: onDelete_run example_defs)
  from builder_immutable [OF valid ok] builder_immutable [OF valid thrown] ok thrown
  show ?thesis by simp
qed

section \<open>Flags\<close>

text \<open>
  Claim C7. On any builder, each of \<^verbatim>\<open>autoIncrement()\<close>, \<^verbatim>\<open>primaryKey()\<close>,
  \<^verbatim>\<open>unique()\<close>, \<^verbatim>\<open>notNull()\<close> and \<^verbatim>\<open>unsigned()\<close> returns (it does not
  throw) a builder whose node is the receiver's node with the corresponding flag set to
  true, and calling the method a second time on the result wraps a node equal to the one
  after the first call.
\<close>

theorem flags_idempotent:
  fixes s :: "'e store"
  assumes "this < length s"
  shows "wrapped (autoIncrement this) s = Inr ((s ! this)\<lparr>cd_autoIncrement := Some True\<rparr>)
    \<and> wrapped (primaryKey this) s = Inr ((s ! this)\<lparr>cd_primaryKey := Some True\<rparr>)
    \<and> wrapped (unique this) s = Inr ((s ! this)\<lparr>cd_unique := Some True\<rparr>)
    \<and> wrapped (notNull this) s = Inr ((s ! this)\<lparr>cd_notNull := Some True\<rparr>)
    \<and> wrapped (unsigned this) s = Inr ((s ! this)\<lparr>cd_unsigned := Some True\<rparr>)
    \<and> wrapped (bind (autoIncrement this) autoIncrement) s = wrapped (autoIncrement this) s
    \<and> wrapped (bind (primaryKey this) primaryKey) s = wrapped (primaryKey this) s
    \<and> wrapped (bind (unique this) unique) s = wrapped (unique this) s
    \<and> wrapped (bind (notNull this) notNull) s = wrapped (notNull this) s
    \<and> wrapped (bind (unsigned this) unsigned) s = wrapped (unsigned this) s"
  using assms
  by (simp add: wrapped_run bind_def flag_runs toOperationNode_def this_node_def nth_append)

theorem flags_idempotent_witness:
  "0 < length [example_column]
   \<and> wrapped (bind (unique 0) unique) [example_column] =
       Inr (example_column\<lparr>cd_unique := Some True\<rparr>)
   \<and> wrapped (bind (autoIncrement 0) autoIncrement) [example_column] =
       Inr (example_column\<lparr>cd_autoIncrement := Some True\<rparr>)"
  using flags_idempotent [of 0 "[example_column]"] by simp

section \<open>Foreign keys\<close>

text \<open>
  Claim C2. With the reference parser of the specification, on any builder,
  \<^verbatim>\<open>references('a.b')\<close> returns a builder whose \<^verbatim>\<open>references\<close> sub-node has
  table \<open>a\<close> without schema and the column list \<open>[b]\<close>;
  \<^verbatim>\<open>references('a.b.c')\<close> returns one with schema \<open>a\<close>, table \<open>b\<close> and the column
  list \<open>[c]\<close>; \<^verbatim>\<open>references('a')\<close> and \<^verbatim>\<open>references('')\<close> throw the parser's
  error, which names the input, and \<^verbatim>\<open>references('a.*')\<close> throws the builder's
  error, whose message quotes the input and states the two accepted formats.
\<close>

theorem references_parses:
  fixes s :: "'e store"
  assumes "this < length s"
  shows "wrapped (references parseStringReference ''a.b'' this) s =
           Inr ((s ! this)\<lparr>cd_references :=
                  Some \<lparr>rn_table = \<lparr>tn_schema = None, tn_table = ''a''\<rparr>,
                        rn_columns = [ColumnNode ''b''],
                        rn_onDelete = None, rn_onUpdate = None\<rparr>\<rparr>)
    \<and> wrapped (references parseStringReference ''a.b.c'' this) s =
           Inr ((s ! this)\<lparr>cd_references :=
                  Some \<lparr>rn_table = \<lparr>tn_schema = Some ''a'', tn_table = ''b''\<rparr>,
                        rn_columns = [ColumnNode ''c''],
                        rn_onDelete = None, rn_onUpdate = None\<rparr>\<rparr>)
    \<and> references parseStringReference ''a'' this s = (Inl (ParseError ''a''), s)
    \<and> references parseStringReference '''' this s = (Inl (ParseError ''''), s)
    \<and> references parseStringReference ''a.*'' this s =
           (Inl (Error (invalid_call_references ''a.*'')), s)
    \<and> invalid_call_references ''a.*'' =
           ''invalid call references('' @ [CHR 0x27] @ ''a.*'' @ [CHR 0x27] @
           ''). The reference must have format table.column or schema.table.column''"
  using assms
  by (simp add: wrapped_run references_run parseStringReference_def parse_column_def
      ReferencesNode_create_def toOperationNode_def this_node_def invalid_call_references_def)

theorem references_parses_witness:
  "0 < length [example_foreign_key]
   \<and> wrapped (references parseStringReference ''a.b'' 0) [example_foreign_key] =
       Inr (example_column\<lparr>cd_references :=
              Some \<lparr>rn_table = \<lparr>tn_schema = None, tn_table = ''a''\<rparr>,
                    rn_columns = [ColumnNode ''b''],
                    rn_onDelete = None, rn_onUpdate = None\<rparr>\<rparr>)
   \<and> references parseStringReference ''a'' 0 [example_foreign_key] =
       (Inl (ParseError ''a''), [example_foreign_key])"
  using references_parses [of 0 "[example_foreign_key]"] by (simp add: example_defs)

text \<open>
  Claim C3. On any builder, \<^verbatim>\<open>onDelete(action)\<close> throws exactly when the builder's
  node has no \<^verbatim>\<open>references\<close> sub-node, and then it throws the error "on delete
  constraint can only be added for foreign keys"; when the sub-node is present, the call
  returns a builder whose node differs from the receiver's only in that the
  \<^verbatim>\<open>onDelete\<close> action of the sub-node is the given one: table, columns and the
  \<^verbatim>\<open>onUpdate\<close> action are kept. The same holds for \<^verbatim>\<open>onUpdate(action)\<close>,
  with the two actions exchanged.
\<close>

theorem onDelete_onUpdate_precondition:
  fixes s :: "'e store"
  assumes "this < length s"
  shows "((\<exists>e. fst (onDelete a this s) = Inl e) \<longleftrightarrow> cd_references (s ! this) = None)
    \<and> (cd_references (s ! this) = None \<longrightarrow>
         onDelete a this s =
           (Inl (Error ''on delete constraint can only be added for foreign keys''), s))
    \<and> (\<forall>refs. cd_references (s ! this) = Some refs \<longrightarrow>
         wrapped (onDelete a this) s =
           Inr ((s ! this)\<lparr>cd_references := Some (refs\<lparr>rn_onDelete := Some a\<rparr>)\<rparr>))
    \<and> ((\<exists>e. fst (onUpdate a this s) = Inl e) \<longleftrightarrow> cd_references (s ! this) = None)
    \<and> (cd_references (s ! this) = None \<longrightarrow>
         onUpdate a this s =
           (Inl (Error ''on update constraint can only be added for foreign keys''), s))
    \<and> (\<forall>refs. cd_references (s ! this) = Some refs \<longrightarrow>
         wrapped (onUpdate a this) s =
           Inr ((s ! this)\<lparr>cd_references := Some (refs\<lparr>rn_onUpdate := Some a\<rparr>)\<rparr>))"
  using assms
  by (auto simp: wrapped_run onDelete_run onUpdate_run toOperationNode_def this_node_def
      split: option.splits)

theorem onDelete_onUpdate_precondition_witness:
  "0 < length [example_foreign_key]
   \<and> cd_references ([example_foreign_key] ! 0) = Some example_references
   \<and> wrapped (onDelete Cascade 0) [example_foreign_key] =
       Inr (example_column\<lparr>cd_references :=
              Some \<lparr>rn_table = \<lparr>tn_schema = None, tn_table = ''person''\<rparr>,
                    rn_columns = [ColumnNode ''id''],
                    rn_onDelete = Some Cascade, rn_onUpdate = Some Restrict\<rparr>\<rparr>)
   \<and> 0 < length [example_column]
   \<and> cd_references ([example_column] ! 0) = None
   \<and> onUpdate Cascade 0 [example_column] =
       (Inl (Error ''on update constraint can only be added for foreign keys''),
        [example_column])"
proof -
  have present: "cd_references ([example_foreign_key] ! 0) = Some example_references"
    by (simp add: example_defs)
  have absent: "cd_references ([example_column] ! 0) = None"
    by (simp add: example_defs)
  from onDelete_onUpdate_precondition [of 0 "[example_foreign_key]" Cascade]
    onDelete_onUpdate_precondition [of 0 "[example_column]" Cascade] present absent
  show ?thesis by (simp add: example_defs)
qed

text \<open>
  Claim C5. Whatever the parser, when \<^verbatim>\<open>references(ref)\<close> returns, the parser has
  answered a reference to a column, and the node of the new builder is the receiver's
  node with its \<^verbatim>\<open>references\<close> sub-node replaced by a fresh one made of the parsed
  table and column alone: it has no \<^verbatim>\<open>onDelete\<close> and no \<^verbatim>\<open>onUpdate\<close> action,
  whatever the previous sub-node carried.
\<close>

theorem references_replaces:
  fixes s :: "'e store"
  assumes "wrapped (references P ref this) s = Inr n'"
  shows "\<exists>table column.
           P ref = Inr (ReferenceNode table (ColumnNode column)) \<and>
           this < length s \<and>
           n' = (s ! this)\<lparr>cd_references := Some (ReferencesNode_create table [ColumnNode column])\<rparr> \<and>
           cd_references n' =
             Some \<lparr>rn_table = table, rn_columns = [ColumnNode column],
                   rn_onDelete = None, rn_onUpdate = None\<rparr>"
  using assms
  by (auto simp: wrapped_run references_run ReferencesNode_create_def toOperationNode_def
      this_node_def split: sum.splits parsed_reference.splits column_part.splits if_splits)

theorem references_replaces_witness:
  "rn_onUpdate (the (cd_references example_foreign_key)) = Some Restrict
   \<and> (\<exists>n'. wrapped (references person_id ''person.id'' 0) [example_foreign_key] = Inr n'
        \<and> cd_references n' =
            Some \<lparr>rn_table = \<lparr>tn_schema = None, tn_table = ''person''\<rparr>,
                  rn_columns = [ColumnNode ''id''],
                  rn_onDelete = None, rn_onUpdate = None\<rparr>)"
proof -
  have run: "wrapped (references person_id ''person.id'' 0) [example_foreign_key] =
      Inr (example_column\<lparr>cd_references :=
             Some (ReferencesNode_create \<lparr>tn_schema = None, tn_table = ''person''\<rparr>
                     [ColumnNode ''id''])\<rparr>)"
    by (simp add: wrapped_run references_run toOperationNode_def this_node_def example_defs)
  from references_replaces [OF run] run
  show ?thesis by (simp add: example_defs)
qed

lemma invoke_one_column:
  fixes s :: "'e store"
  assumes "this < length s" and "one_column (s ! this)" and "invoke P D c this s = (Inr b, s')"
  shows "b < length s' \<and> one_column (s' ! b)"
  using assms
  by (cases c; auto simp: one_column_def flag_runs defaultTo_run check_run generated_runs
      onDelete_run onUpdate_run stored_run references_run ReferencesNode_create_def
      split: option.splits sum.splits parsed_reference.splits column_part.splits if_splits)+

lemma chain_one_column:
  fixes s :: "'e store"
  shows "this < length s \<Longrightarrow> one_column (s ! this) \<Longrightarrow> chain P D cs this s = (Inr b, s')
    \<Longrightarrow> b < length s' \<and> one_column (s' ! b)"
proof (induction cs arbitrary: this s)
  case Nil
  then show ?case by (simp add: return_def)
next
  case (Cons c cs)
  from Cons.prems(3) obtain b1 s1 where
    step: "invoke P D c this s = (Inr b1, s1)" and rest: "chain P D cs b1 s1 = (Inr b, s')"
    by (auto simp: bind_def split: prod.splits sum.splits)
  from invoke_one_column [OF Cons.prems(1,2) step] Cons.IH [OF _ _ rest]
  show ?case by blast
qed

text \<open>
  Claim C10. Whatever the parser, a \<^verbatim>\<open>references\<close> call that returns has installed
  a sub-node with exactly one column; \<^verbatim>\<open>onDelete\<close> and \<^verbatim>\<open>onUpdate\<close> on a
  builder with a \<^verbatim>\<open>references\<close> sub-node return a builder whose sub-node has the
  same table and the same columns; and from a builder whose node has no
  \<^verbatim>\<open>references\<close> sub-node, or one with a single column, every chain of calls that
  returns ends in a builder whose node has no such sub-node or one with a single column.
\<close>

theorem references_one_column:
  fixes s :: "'e store"
  shows "(wrapped (references P ref this) s = Inr n' \<longrightarrow>
           (\<exists>refs. cd_references n' = Some refs \<and> length (rn_columns refs) = 1))
    \<and> (this < length s \<and> cd_references (s ! this) = Some refs \<longrightarrow>
         (\<exists>n1 n2 r1 r2.
            wrapped (onDelete a this) s = Inr n1 \<and> cd_references n1 = Some r1 \<and>
            rn_table r1 = rn_table refs \<and> rn_columns r1 = rn_columns refs \<and>
            wrapped (onUpdate a this) s = Inr n2 \<and> cd_references n2 = Some r2 \<and>
            rn_table r2 = rn_table refs \<and> rn_columns r2 = rn_columns refs))
    \<and> (this < length s \<and> one_column (s ! this) \<and> wrapped (chain P D cs this) s = Inr n \<longrightarrow>
         one_column n)"
proof (intro conjI impI)
  assume "wrapped (references P ref this) s = Inr n'"
  then show "\<exists>refs. cd_references n' = Some refs \<and> length (rn_columns refs) = 1"
    by (auto simp: wrapped_run references_run ReferencesNode_create_def toOperationNode_def
        this_node_def split: sum.splits parsed_reference.splits column_part.splits if_splits)
next
  assume "this < length s \<and> cd_references (s ! this) = Some refs"
  then show "\<exists>n1 n2 r1 r2.
            wrapped (onDelete a this) s = Inr n1 \<and> cd_references n1 = Some r1 \<and>
            rn_table r1 = rn_table refs \<and> rn_columns r1 = rn_columns refs \<and>
            wrapped (onUpdate a this) s = Inr n2 \<and> cd_references n2 = Some r2 \<and>
            rn_table r2 = rn_table refs \<and> rn_columns r2 = rn_columns refs"
    by (simp add: wrapped_run onDelete_run onUpdate_run toOperationNode_def this_node_def)
next
  assume a: "this < length s \<and> one_column (s ! this) \<and> wrapped (chain P D cs this) s = Inr n"
  then obtain b s' where run: "chain P D cs this s = (Inr b, s')"
    and n: "fst (toOperationNode b s') = Inr n"
    by (auto simp: wrapped_run split: prod.splits sum.splits)
  from a run have "b < length s' \<and> one_column (s' ! b)"
    using chain_one_column by blast
  with n show "one_column n"
    by (simp add: toOperationNode_def this_node_def)
qed

theorem references_one_column_witness:
  "0 < length [example_column] \<and> one_column ([example_column] ! 0)
   \<and> wrapped (chain person_id (\<lambda>v. v)
                [Call_references ''person.id'', Call_onDelete Cascade, Call_onUpdate Restrict] 0)
        [example_column] =
       Inr (example_column\<lparr>cd_references :=
              Some \<lparr>rn_table = \<lparr>tn_schema = None, tn_table = ''person''\<rparr>,
                    rn_columns = [ColumnNode ''id''],
                    rn_onDelete = Some Cascade, rn_onUpdate = Some Restrict\<rparr>\<rparr>)
   \<and> one_column (example_column\<lparr>cd_references :=
              Some \<lparr>rn_table = \<lparr>tn_schema = None, tn_table = ''person''\<rparr>,
                    rn_columns = [ColumnNode ''id''],
                    rn_onDelete = Some Cascade, rn_onUpdate = Some Restrict\<rparr>\<rparr>)
   \<and> wrapped (references person_id ''person.id'' 0) [example_column] =
       Inr (example_column\<lparr>cd_references :=
              Some \<lparr>rn_table = \<lparr>tn_schema = None, tn_table = ''person''\<rparr>,
                    rn_columns = [ColumnNode ''id''],
                    rn_onDelete = None, rn_onUpdate = None\<rparr>\<rparr>)
   \<and> cd_references ([example_foreign_key] ! 0) = Some example_references
   \<and> wrapped (onDelete Cascade 0) [example_foreign_key] =
       Inr (example_column\<lparr>cd_references :=
              Some \<lparr>rn_table = \<lparr>tn_schema = None, tn_table = ''person''\<rparr>,
                    rn_columns = [ColumnNode ''id''],
                    rn_onDelete = Some Cascade, rn_onUpdate = Some Restrict\<rparr>\<rparr>)"
proof -
  have valid: "0 < length [example_column]"
    by simp
  have start: "one_column ([example_column] ! 0)"
    by (simp add: one_column_def example_defs)
  have run: "wrapped (chain person_id (\<lambda>v. v)
                [Call_references ''person.id'', Call_onDelete Cascade, Call_onUpdate Restrict] 0)
        [example_column] =
       Inr (example_column\<lparr>cd_references :=
              Some \<lparr>rn_table = \<lparr>tn_schema = None, tn_table = ''person''\<rparr>,
                    rn_columns = [ColumnNode ''id''],
                    rn_onDelete = Some Cascade, rn_onUpdate = Some Restrict\<rparr>\<rparr>)"
    by (simp add: wrapped_run bind_def return_def references_run onDelete_run onUpdate_run
        ReferencesNode_create_def toOperationNode_def this_node_def person_id_def)
  have first: "wrapped (references person_id ''person.id'' 0) [example_column] =
       Inr (example_column\<lparr>cd_references :=
              Some \<lparr>rn_table = \<lparr>tn_schema = None, tn_table = ''person''\<rparr>,
                    rn_columns = [ColumnNode ''id''],
                    rn_onDelete = None, rn_onUpdate = None\<rparr>\<rparr>)"
    by (simp add: wrapped_run references_run ReferencesNode_create_def toOperationNode_def
        this_node_def person_id_def)
  have present: "cd_references ([example_foreign_key] ! 0) = Some example_references"
    by (simp add: example_defs)
  have del: "wrapped (onDelete Cascade 0) [example_foreign_key] =
       Inr (example_column\<lparr>cd_references :=
              Some \<lparr>rn_table = \<lparr>tn_schema = None, tn_table = ''person''\<rparr>,
                    rn_columns = [ColumnNode ''id''],
                    rn_onDelete = Some Cascade, rn_onUpdate = Some Restrict\<rparr>\<rparr>)"
    by (simp add: wrapped_run onDelete_run toOperationNode_def this_node_def example_defs)
  note inst = references_one_column
    [of person_id "''person.id''" 0 "[example_column]" _ _ Cascade "\<lambda>v. v"
        "[Call_references ''person.id'', Call_onDelete Cascade, Call_onUpdate Restrict]"]
  from inst valid start run have "one_column (example_column\<lparr>cd_references :=
              Some \<lparr>rn_table = \<lparr>tn_schema = None, tn_table = ''person''\<rparr>,
                    rn_columns = [ColumnNode ''id''],
                    rn_onDelete = Some Cascade, rn_onUpdate = Some Restrict\<rparr>\<rparr>)"
    by blast
  with valid start run first present del show ?thesis
    by simp
qed

section \<open>Generated columns\<close>

text \<open>
  Claim C4. On any builder, \<^verbatim>\<open>stored()\<close> throws exactly when the builder's node has
  no \<^verbatim>\<open>generated\<close> sub-node, and then it throws the error "stored() can only be
  called after generatedAlwaysAs"; when the sub-node is present, whatever its form, the
  call returns a builder whose node differs from the receiver's only in that
  \<^verbatim>\<open>stored\<close> of the sub-node is true. In particular it returns after each of
  \<^verbatim>\<open>generatedAlwaysAs\<close>, \<^verbatim>\<open>generatedAlwaysAsIdentity\<close> and
  \<^verbatim>\<open>generatedByDefaultAsIdentity\<close>, with the expression or the identity fields
  as these calls set them.
\<close>

theorem stored_precondition:
  fixes s :: "'e store"
  assumes "this < length s"
  shows "((\<exists>e. fst (stored this s) = Inl e) \<longleftrightarrow> cd_generated (s ! this) = None)
    \<and> (cd_generated (s ! this) = None \<longrightarrow>
         stored this s =
           (Inl (Error ''stored() can only be called after generatedAlwaysAs''), s))
    \<and> (\<forall>g. cd_generated (s ! this) = Some g \<longrightarrow>
         wrapped (stored this) s =
           Inr ((s ! this)\<lparr>cd_generated := Some (g\<lparr>gn_stored := Some True\<rparr>)\<rparr>))
    \<and> wrapped (bind (generatedAlwaysAs x this) stored) s =
         Inr ((s ! this)\<lparr>cd_generated :=
                Some ((GeneratedNode_createWithExpression (raw_toOperationNode x))
                        \<lparr>gn_stored := Some True\<rparr>)\<rparr>)
    \<and> wrapped (bind (generatedAlwaysAsIdentity this) stored) s =
         Inr ((s ! this)\<lparr>cd_generated :=
                Some ((GeneratedNode_create [Set_identity True, Set_always True])
                        \<lparr>gn_stored := Some True\<rparr>)\<rparr>)
    \<and> wrapped (bind (generatedByDefaultAsIdentity this) stored) s =
         Inr ((s ! this)\<lparr>cd_generated :=
                Some ((GeneratedNode_create [Set_identity True, Set_byDefault True])
                        \<lparr>gn_stored := Some True\<rparr>)\<rparr>)"
  using assms
  by (auto simp: wrapped_run bind_def stored_run generated_runs toOperationNode_def
      this_node_def nth_append split: option.splits)

theorem stored_precondition_witness:
  "0 < length [example_generated]
   \<and> cd_generated ([example_generated] ! 0) =
       Some \<lparr>gn_identity = None, gn_always = None, gn_byDefault = None, gn_stored = None,
             gn_expression = Some ''a + b''\<rparr>
   \<and> wrapped (stored 0) [example_generated] =
       Inr (example_column\<lparr>cd_generated :=
              Some \<lparr>gn_identity = None, gn_always = None, gn_byDefault = None,
                    gn_stored = Some True, gn_expression = Some ''a + b''\<rparr>\<rparr>)
   \<and> wrapped (bind (generatedAlwaysAsIdentity 0) stored) [example_column] =
       Inr (example_column\<lparr>cd_generated :=
              Some \<lparr>gn_identity = Some True, gn_always = Some True, gn_byDefault = None,
                    gn_stored = Some True, gn_expression = None\<rparr>\<rparr>)
   \<and> cd_generated ([example_column] ! 0) = None
   \<and> stored 0 [example_column] =
       (Inl (Error ''stored() can only be called after generatedAlwaysAs''), [example_column])"
proof -
  have present: "cd_generated ([example_generated] ! 0) =
       Some \<lparr>gn_identity = None, gn_always = None, gn_byDefault = None, gn_stored = None,
             gn_expression = Some ''a + b''\<rparr>"
    by (simp add: example_defs GeneratedNode_createWithExpression_def)
  have absent: "cd_generated ([example_column] ! 0) = None"
    by (simp add: example_defs)
  from stored_precondition [of 0 "[example_generated]"]
    stored_precondition [of 0 "[example_column]"] present absent
  show ?thesis
    by (simp add: example_defs GeneratedNode_create_def)
qed

text \<open>
  Claim C6. On any builder, whatever \<^verbatim>\<open>generated\<close> sub-node its node has,
  \<^verbatim>\<open>generatedAlwaysAsIdentity()\<close> and \<^verbatim>\<open>generatedByDefaultAsIdentity()\<close>
  return a builder whose sub-node is the identity specifier alone, with no expression,
  and \<^verbatim>\<open>generatedAlwaysAs(expr)\<close> returns one whose sub-node is the expression form
  of \<open>expr\<close> alone, which is no identity specifier. So an identity call after
  \<^verbatim>\<open>generatedAlwaysAs(expr)\<close> wraps the same node as the identity call alone, and
  \<^verbatim>\<open>generatedAlwaysAs(expr)\<close> after an identity call wraps the same node as
  \<^verbatim>\<open>generatedAlwaysAs(expr)\<close> alone.
\<close>

theorem generated_replaced:
  fixes s :: "'e store"
  assumes "this < length s"
  shows "wrapped (generatedAlwaysAsIdentity this) s =
           Inr ((s ! this)\<lparr>cd_generated :=
                  Some \<lparr>gn_identity = Some True, gn_always = Some True, gn_byDefault = None,
                        gn_stored = None, gn_expression = None\<rparr>\<rparr>)
    \<and> wrapped (generatedByDefaultAsIdentity this) s =
           Inr ((s ! this)\<lparr>cd_generated :=
                  Some \<lparr>gn_identity = Some True, gn_always = None, gn_byDefault = Some True,
                        gn_stored = None, gn_expression = None\<rparr>\<rparr>)
    \<and> wrapped (generatedAlwaysAs x this) s =
           Inr ((s ! this)\<lparr>cd_generated :=
                  Some (GeneratedNode_createWithExpression (raw_toOperationNode x))\<rparr>)
    \<and> gn_expression (GeneratedNode_createWithExpression (raw_toOperationNode x)) =
           Some (raw_toOperationNode x)
    \<and> gn_identity (GeneratedNode_createWithExpression (raw_toOperationNode x)) = None
    \<and> wrapped (bind (generatedAlwaysAs x this) generatedAlwaysAsIdentity) s =
           wrapped (generatedAlwaysAsIdentity this) s
    \<and> wrapped (bind (generatedAlwaysAs x this) generatedByDefaultAsIdentity) s =
           wrapped (generatedByDefaultAsIdentity this) s
    \<and> wrapped (bind (generatedAlwaysAsIdentity this) (generatedAlwaysAs x)) s =
           wrapped (generatedAlwaysAs x this) s
    \<and> wrapped (bind (generatedByDefaultAsIdentity this) (generatedAlwaysAs x)) s =
           wrapped (generatedAlwaysAs x this) s"
  using assms
  by (simp add: wrapped_run bind_def generated_runs toOperationNode_def this_node_def
      nth_append GeneratedNode_create_def GeneratedNode_createWithExpression_def)

theorem generated_replaced_witness:
  "0 < length [example_generated]
   \<and> gn_expression (the (cd_generated example_generated)) = Some ''a + b''
   \<and> wrapped (generatedAlwaysAsIdentity 0) [example_generated] =
       Inr (example_column\<lparr>cd_generated :=
              Some \<lparr>gn_identity = Some True, gn_always = Some True, gn_byDefault = None,
                    gn_stored = None, gn_expression = None\<rparr>\<rparr>)
   \<and> wrapped (bind (generatedByDefaultAsIdentity 0) (generatedAlwaysAs (RawBuilder ''c'')))
         [example_generated] =
       Inr (example_column\<lparr>cd_generated :=
              Some \<lparr>gn_identity = None, gn_always = None, gn_byDefault = None,
                    gn_stored = None, gn_expression = Some ''c''\<rparr>\<rparr>)"
  using generated_replaced [of 0 "[example_generated]" "RawBuilder ''c''"]
  by (simp add: example_defs GeneratedNode_createWithExpression_def)

section \<open>Check constraints\<close>

text \<open>
  Claim C8. On any builder and for any raw expression,
  \<^verbatim>\<open>check(expr).unique().notNull()\<close> returns a builder whose node is the receiver's
  node with \<^verbatim>\<open>check\<close> set to the check constraint of the expression's node and
  \<^verbatim>\<open>unique\<close> and \<^verbatim>\<open>notNull\<close> true, and the three calls in each of the five
  other orders wrap an equal node.
\<close>

theorem check_unique_notNull_commute:
  fixes s :: "'e store"
  assumes "this < length s"
  shows "wrapped (bind (bind (check x this) unique) notNull) s =
           Inr ((s ! this)\<lparr>cd_check := Some (CheckConstraintNode (raw_toOperationNode x)),
                            cd_unique := Some True, cd_notNull := Some True\<rparr>)
    \<and> wrapped (bind (bind (check x this) notNull) unique) s =
        wrapped (bind (bind (check x this) unique) notNull) s
    \<and> wrapped (bind (bind (unique this) (check x)) notNull) s =
        wrapped (bind (bind (check x this) unique) notNull) s
    \<and> wrapped (bind (bind (unique this) notNull) (check x)) s =
        wrapped (bind (bind (check x this) unique) notNull) s
    \<and> wrapped (bind (bind (notNull this) (check x)) unique) s =
        wrapped (bind (bind (check x this) unique) notNull) s
    \<and> wrapped (bind (bind (notNull this) unique) (check x)) s =
        wrapped (bind (bind (check x this) unique) notNull) s"
  using assms
  by (simp add: wrapped_run bind_def check_run flag_runs toOperationNode_def this_node_def
      nth_append)

theorem check_unique_notNull_commute_witness:
  "0 < length [example_column]
   \<and> wrapped (bind (bind (notNull 0) unique) (check (RawBuilder ''number_of_legs < 5'')))
        [example_column] =
       Inr (example_column\<lparr>cd_check := Some (CheckConstraintNode ''number_of_legs < 5''),
                           cd_unique := Some True, cd_notNull := Some True\<rparr>)"
  using check_unique_notNull_commute [of 0 "[example_column]" "RawBuilder ''number_of_legs < 5''"]
  by simp

section \<open>Accumulating having conditions\<close>

text \<open>
  Claim C9. On a builder with no having condition yet, three successive
  \<^verbatim>\<open>orHaving\<close> calls with the conditions \<open>c1\<close>, \<open>c2\<close>, \<open>c3\<close> leave the having
  clause \<open>(c1 OR c2) OR c3\<close>, which holds exactly when one of the three does; calls that
  add clauses of other types, before, between or after them, do not change this; and
  on a builder that has a having condition already, the call puts the OR of that
  condition and the new one in its place.
\<close>

theorem orHaving_accumulates:
  fixes q :: "('a, 'c) QueryNode"
  shows "(qn_having q = None \<longrightarrow>
           qn_having (orHaving eb a3 (orHaving eb a2 (orHaving eb a1 q))) =
             Some (OrNode (OrNode (parseHaving eb a1) (parseHaving eb a2)) (parseHaving eb a3)))
    \<and> holds v (OrNode (OrNode (parseHaving eb a1) (parseHaving eb a2)) (parseHaving eb a3)) =
        (holds v (parseHaving eb a1) \<or> holds v (parseHaving eb a2) \<or> holds v (parseHaving eb a3))
    \<and> qn_having
        (otherClause f3 (orHaving eb a3 (otherClause f2 (orHaving eb a2
           (otherClause f1 (orHaving eb a1 (otherClause f0 q))))))) =
        qn_having (orHaving eb a3 (orHaving eb a2 (orHaving eb a1 q)))
    \<and> (\<forall>p. qn_having q = Some p \<longrightarrow>
          qn_having (orHaving eb a1 q) = Some (OrNode p (parseHaving eb a1)))"
  by (simp add: orHaving_def otherClause_def)

theorem orHaving_accumulates_witness:
  "qn_having \<lparr>qn_having = None, qn_clauses = [''select'']\<rparr> = (None :: string Predicate option)
   \<and> qn_having
       (orHaving () (ByExpression (ExistsNode ''pets''))
          (otherClause (\<lambda>cs. cs @ [''where''])
             (orHaving () (ByFactory (\<lambda>eb. Comparison ''age'' ''>'' ''18''))
                (orHaving () (Binary ''id'' ''='' ''1'')
                   \<lparr>qn_having = None, qn_clauses = [''select'']\<rparr>)))) =
       Some (OrNode (OrNode (Comparison ''id'' ''='' ''1'') (Comparison ''age'' ''>'' ''18''))
               (ExistsNode ''pets''))
   \<and> qn_having (orHaving () (Binary ''id'' ''='' ''2'')
        \<lparr>qn_having = Some (ExistsNode ''pets''), qn_clauses = [''select'']\<rparr>) =
       Some (OrNode (ExistsNode ''pets'') (Comparison ''id'' ''='' ''2''))"
proof -
  let ?q = "\<lparr>qn_having = (None :: string Predicate option), qn_clauses = [''select'']\<rparr>"
  let ?q' = "\<lparr>qn_having = Some (ExistsNode ''pets''), qn_clauses = [''select'']\<rparr>"
  have empty: "qn_having ?q = None"
    by simp
  have full: "qn_having ?q' = Some (ExistsNode ''pets'')"
    by simp
  from orHaving_accumulates [of ?q "()" "ByExpression (ExistsNode ''pets'')"
      "ByFactory (\<lambda>eb. Comparison ''age'' ''>'' ''18'')" "Binary ''id'' ''='' ''1''"] empty
  have three: "qn_having
       (orHaving () (ByExpression (ExistsNode ''pets''))
          (orHaving () (ByFactory (\<lambda>eb. Comparison ''age'' ''>'' ''18''))
             (orHaving () (Binary ''id'' ''='' ''1'') ?q))) =
       Some (OrNode (OrNode (Comparison ''id'' ''='' ''1'') (Comparison ''age'' ''>'' ''18''))
               (ExistsNode ''pets''))"
    by simp
  from orHaving_accumulates [of ?q' "()" _ _ "Binary ''id'' ''='' ''2''"] full
  have appended: "qn_having (orHaving () (Binary ''id'' ''='' ''2'') ?q') =
       Some (OrNode (ExistsNode ''pets'') (Comparison ''id'' ''='' ''2''))"
    by simp
  from three appended show ?thesis
    by (simp add: orHaving_def otherClause_def)
qed

end
